theory Spec2Isabelle
  imports Complex_Main
begin

section \<open>Filling an ndarray with a scalar (stdlib ndarray/base/fill)\<close>

text \<open>
  The package's only function is \<^verbatim>\<open>fill( x, value )\<close> of \<^verbatim>\<open>lib/main.js\<close>:
  it reads the data type of \<open>x\<close>, rejects a value that cannot be cast to it, broadcasts
  the value to a zero-stride ndarray of the shape of \<open>x\<close> and assigns that ndarray to
  \<open>x\<close>. The cast check, the broadcast and the assignment are functions of other stdlib
  packages; they are modelled below from their description in the specification, each
  marked as such.
\<close>

subsection \<open>Data model\<close>

text \<open>
  Modelled from the spec: the element types. In the source a data type is its name, a
  string such as \<^verbatim>\<open>'float64'\<close>; the types behind the names are those of the data
  model: signed and unsigned integers of fixed widths, the floating-point widths, and the
  complex types of two floating-point components.
\<close>

datatype real_dtype = Int8 | Int16 | Int32 | Uint8 | Uint16 | Uint32 | Float32 | Float64

datatype complex_dtype = Complex64 | Complex128

datatype dtype = RealT real_dtype | ComplexT complex_dtype

datatype order = RowMajor | ColumnMajor

text \<open>
  A JavaScript number: a finite value, an infinity or NaN. There is one type of number:
  \<^verbatim>\<open>3.0\<close> and \<^verbatim>\<open>3\<close> are the same value \<open>Fin 3\<close>.
\<close>

datatype number = Fin real | PosInf | NegInf | NaN

text \<open>An element of a data buffer: a real number, or a complex number as its two components.\<close>

datatype elem = RealElem number | ComplexElem number number

text \<open>
  The second argument of \<open>fill\<close>, any JavaScript value: a number, a complex number
  with its real and imaginary components, or a value that is neither.
\<close>

datatype scalar = NumberValue number | ComplexValue number number | NonNumeric

text \<open>The ndarray-like object: the six properties listed in the documentation of \<open>fill\<close>.\<close>

record ndarray =
  dtype :: dtype
  data :: "elem list"
  shape :: "nat list"
  strides :: "int list"
  offset :: nat
  order :: order

text \<open>
  The text of an error message: the characters of the template, with the stringified
  value kept as the value itself.
\<close>

datatype piece = Chr char | Val scalar

datatype fmt_arg = StrArg string | ValArg scalar

datatype error = TypeError "piece list" | UnsupportedCastKind | ShapeMismatch

text \<open>What a call returns to its caller: \<^verbatim>\<open>undefined\<close>, or an ndarray object.\<close>

datatype jsvalue = Undefined | Object ndarray

subsection \<open>Accessors\<close>

definition getDtype :: "ndarray \<Rightarrow> dtype" where
  "getDtype x = dtype x"

definition getShape :: "ndarray \<Rightarrow> nat list" where
  "getShape x = shape x"

definition getOrder :: "ndarray \<Rightarrow> order" where
  "getOrder x = order x"

fun dtype_str :: "dtype \<Rightarrow> string" where
  "dtype_str (RealT Int8) = ''int8''"
| "dtype_str (RealT Int16) = ''int16''"
| "dtype_str (RealT Int32) = ''int32''"
| "dtype_str (RealT Uint8) = ''uint8''"
| "dtype_str (RealT Uint16) = ''uint16''"
| "dtype_str (RealT Uint32) = ''uint32''"
| "dtype_str (RealT Float32) = ''float32''"
| "dtype_str (RealT Float64) = ''float64''"
| "dtype_str (ComplexT Complex64) = ''complex64''"
| "dtype_str (ComplexT Complex128) = ''complex128''"

subsection \<open>String formatting\<close>

text \<open>
  Modelled from the spec: \<^verbatim>\<open>@stdlib/string-format\<close> is not part of the package. Each
  \<^verbatim>\<open>%s\<close> of the template is replaced by the next argument; a \<^verbatim>\<open>%s\<close> with no
  argument left stays as it is.
\<close>

fun render :: "fmt_arg \<Rightarrow> piece list" where
  "render (StrArg s) = map Chr s"
| "render (ValArg v) = [Val v]"

fun format :: "string \<Rightarrow> fmt_arg list \<Rightarrow> piece list" where
  "format [] args = []"
| "format [c] args = [Chr c]"
| "format (c # d # rest) args =
     (if c = CHR ''%'' \<and> d = CHR ''s'' \<and> args \<noteq> []
      then render (hd args) @ format rest (tl args)
      else Chr c # format (d # rest) args)"

subsection \<open>Cast policy\<close>

datatype kind = SignedInteger | UnsignedInteger | FloatingPoint

fun kind_of :: "real_dtype \<Rightarrow> kind" where
  "kind_of Int8 = SignedInteger"
| "kind_of Int16 = SignedInteger"
| "kind_of Int32 = SignedInteger"
| "kind_of Uint8 = UnsignedInteger"
| "kind_of Uint16 = UnsignedInteger"
| "kind_of Uint32 = UnsignedInteger"
| "kind_of Float32 = FloatingPoint"
| "kind_of Float64 = FloatingPoint"

fun bits :: "real_dtype \<Rightarrow> nat" where
  "bits Int8 = 8"
| "bits Int16 = 16"
| "bits Int32 = 32"
| "bits Uint8 = 8"
| "bits Uint16 = 16"
| "bits Uint32 = 32"
| "bits Float32 = 32"
| "bits Float64 = 64"

fun component :: "complex_dtype \<Rightarrow> real_dtype" where
  "component Complex64 = Float32"
| "component Complex128 = Float64"

text \<open>The smallest and the largest integer of an integer type.\<close>

definition lowest :: "real_dtype \<Rightarrow> int" where
  "lowest t = (if kind_of t = SignedInteger then - (2 ^ (bits t - 1)) else 0)"

definition highest :: "real_dtype \<Rightarrow> int" where
  "highest t = (if kind_of t = SignedInteger then 2 ^ (bits t - 1) - 1 else 2 ^ bits t - 1)"

text \<open>
  A number is held by an integer type when it is finite, has no fractional part and lies
  within the range of the type.
\<close>

fun fits :: "real_dtype \<Rightarrow> number \<Rightarrow> bool" where
  "fits t (Fin r) = (of_int \<lfloor>r\<rfloor> = r \<and> lowest t \<le> \<lfloor>r\<rfloor> \<and> \<lfloor>r\<rfloor> \<le> highest t)"
| "fits t PosInf = False"
| "fits t NegInf = False"
| "fits t NaN = False"

text \<open>
  Modelled from the spec: \<^verbatim>\<open>@stdlib/ndarray-base-assert-is-scalar-mostly-safe-compatible\<close>
  is not part of the package. The rules of the cast policy, for the values of
  JavaScript: a number is a double-precision value, and its natural type is told from the
  value alone. It is compatible with every floating-point type, real or complex (the
  type itself, a promotion, or a downcast of the same kind), and with an integer type
  when it is an integer that the type holds (a safe cast from the smallest integer type
  of the value). A complex value is compatible with the complex types only. Any other
  value is incompatible.
\<close>

fun isScalarMostlySafeCompatible :: "scalar \<Rightarrow> dtype \<Rightarrow> bool" where
  "isScalarMostlySafeCompatible (NumberValue n) (RealT t) =
     (kind_of t = FloatingPoint \<or> fits t n)"
| "isScalarMostlySafeCompatible (NumberValue n) (ComplexT t) = True"
| "isScalarMostlySafeCompatible (ComplexValue a b) (RealT t) = False"
| "isScalarMostlySafeCompatible (ComplexValue a b) (ComplexT t) = True"
| "isScalarMostlySafeCompatible NonNumeric t = False"

subsection \<open>Single precision\<close>

definition pow2 :: "int \<Rightarrow> real" where
  "pow2 e = (if 0 \<le> e then 2 ^ nat e else 1 / 2 ^ nat (- e))"

text \<open>Rounding to the nearest integer, a tie to the even one.\<close>

definition rne :: "real \<Rightarrow> int" where
  "rne q =
     (let f = \<lfloor>q\<rfloor>; d = q - of_int f
      in if d < 1 / 2 then f else if 1 / 2 < d then f + 1 else if even f then f else f + 1)"

text \<open>
  The exponent of a magnitude in single precision: the largest \<open>e\<close> from \<open>- 126\<close> to
  \<open>k - 126\<close> with \<open>2 ^ e\<close> at most the magnitude, and \<open>- 126\<close>, the exponent of the
  subnormal numbers, when there is none.
\<close>

fun binade :: "real \<Rightarrow> nat \<Rightarrow> int" where
  "binade a 0 = - 126"
| "binade a (Suc k) =
     (if pow2 (int (Suc k) - 126) \<le> a then int (Suc k) - 126 else binade a k)"

text \<open>
  Modelled from the spec: the precision-reducing downcast to single precision, the
  single-precision number nearest to a number (\<^verbatim>\<open>Math.fround\<close>, the conversion of a
  store into a single-precision typed array): 24 significant bits, a tie to the even
  significand, an infinity from the magnitude \<open>2 ^ 128\<close> on.
\<close>

definition fround_fin :: "real \<Rightarrow> number" where
  "fround_fin r =
     (let a = \<bar>r\<bar>; ulp = pow2 (binade a 253 - 23); m = of_int (rne (a / ulp)) * ulp
      in if pow2 128 \<le> m then (if 0 < r then PosInf else NegInf)
         else Fin (if r < 0 then - m else m))"

fun fround :: "number \<Rightarrow> number" where
  "fround (Fin r) = fround_fin r"
| "fround PosInf = PosInf"
| "fround NegInf = NegInf"
| "fround NaN = NaN"

subsection \<open>Broadcasting a scalar\<close>

text \<open>
  Modelled from the spec: the representation of a number in a real element type. A
  double-precision type holds the number itself, a single-precision type the
  single-precision number nearest to it (a precision-reducing downcast), an integer type
  the integers of its range and nothing else.
\<close>

fun cast_real :: "real_dtype \<Rightarrow> number \<Rightarrow> number option" where
  "cast_real Float64 n = Some n"
| "cast_real Float32 n = Some (fround n)"
| "cast_real t n = (if fits t n then Some n else None)"

text \<open>
  Modelled from the spec: the cast of a number into the representation of an element
  type. A real number in a complex type has that number, in the precision of the
  components, as its real component and zero as its imaginary component; a complex number
  has no representation in a real type.
\<close>

fun cast :: "dtype \<Rightarrow> elem \<Rightarrow> elem option" where
  "cast (RealT t) (RealElem n) = map_option RealElem (cast_real t n)"
| "cast (RealT t) (ComplexElem a b) = None"
| "cast (ComplexT t) (RealElem n) =
     map_option (\<lambda>a. ComplexElem a (Fin 0)) (cast_real (component t) n)"
| "cast (ComplexT t) (ComplexElem a b) =
     (case (cast_real (component t) a, cast_real (component t) b) of
        (Some a', Some b') \<Rightarrow> Some (ComplexElem a' b')
      | _ \<Rightarrow> None)"

fun cast_scalar :: "dtype \<Rightarrow> scalar \<Rightarrow> elem option" where
  "cast_scalar dt (NumberValue n) = cast dt (RealElem n)"
| "cast_scalar dt (ComplexValue a b) = cast dt (ComplexElem a b)"
| "cast_scalar dt NonNumeric = None"

text \<open>
  Modelled from the spec: \<^verbatim>\<open>@stdlib/ndarray-base-broadcast-scalar\<close> is not part of the
  package. The view has a buffer of one element, the cast value, the shape and the order
  it is given, every stride zero and offset zero; a value with no representation in the
  element type is an error.
\<close>

definition broadcastScalar :: "scalar \<Rightarrow> dtype \<Rightarrow> nat list \<Rightarrow> order \<Rightarrow> error + ndarray" where
  "broadcastScalar value dt sh ord =
     (case cast_scalar dt value of
        None \<Rightarrow> Inl UnsupportedCastKind
      | Some c \<Rightarrow>
          Inr \<lparr>dtype = dt, data = [c], shape = sh, strides = replicate (length sh) 0,
               offset = 0, order = ord\<rparr>)"

subsection \<open>Strided assignment\<close>

definition numel :: "nat list \<Rightarrow> nat" where
  "numel sh = prod_list sh"

text \<open>
  Modelled from the spec: the order in which the assignment visits the multi-indices of a
  shape: the last dimension varying fastest for a row-major destination, the first
  dimension for a column-major one.
\<close>

fun indices_row :: "nat list \<Rightarrow> nat list list" where
  "indices_row [] = [[]]"
| "indices_row (n # ns) = concat (map (\<lambda>i. map ((#) i) (indices_row ns)) [0..<n])"

fun indices_col :: "nat list \<Rightarrow> nat list list" where
  "indices_col [] = [[]]"
| "indices_col (n # ns) = concat (map (\<lambda>rest. map (\<lambda>i. i # rest) [0..<n]) (indices_col ns))"

fun traversal :: "order \<Rightarrow> nat list \<Rightarrow> nat list list" where
  "traversal RowMajor sh = indices_row sh"
| "traversal ColumnMajor sh = indices_col sh"

text \<open>
  Modelled from the spec: the buffer position of a multi-index, the offset plus the sum
  of index times stride. With fewer strides than dimensions a stride is
  \<^verbatim>\<open>undefined\<close> and the sum is not a number: there is no position (\<open>None\<close>).
\<close>

definition position :: "ndarray \<Rightarrow> nat list \<Rightarrow> int option" where
  "position x idx =
     (if length idx \<le> length (strides x)
      then Some (int (offset x) + sum_list (map2 (\<lambda>i s. int i * s) idx (strides x)))
      else None)"

text \<open>
  Modelled from the spec: access to a buffer by position. The spec leaves a position
  outside the buffer undefined; here, as for a JavaScript typed array, reading there gives
  nothing (\<^verbatim>\<open>undefined\<close>, \<open>None\<close>) and a store there is ignored.
\<close>

fun inside :: "'b list \<Rightarrow> int option \<Rightarrow> bool" where
  "inside buf None = False"
| "inside buf (Some p) = (0 \<le> p \<and> p < int (length buf))"

definition buf_get :: "'b list \<Rightarrow> int option \<Rightarrow> 'b option" where
  "buf_get buf p = (if inside buf p then Some (buf ! nat (the p)) else None)"

definition buf_set :: "'b list \<Rightarrow> int option \<Rightarrow> 'b \<Rightarrow> 'b list" where
  "buf_set buf p v = (if inside buf p then buf[nat (the p) := v] else buf)"

text \<open>The element of an ndarray at a multi-index.\<close>

definition get :: "ndarray \<Rightarrow> nat list \<Rightarrow> elem option" where
  "get x idx = buf_get (data x) (position x idx)"

text \<open>
  Modelled from the spec: the cast of an element of the source to the element type of
  the destination. An element of a buffer is in the representation of the buffer's type
  already: between equal types it is copied.
\<close>

definition convert :: "dtype \<Rightarrow> dtype \<Rightarrow> elem \<Rightarrow> elem option" where
  "convert s t e = (if s = t then Some e else cast t e)"

text \<open>
  Modelled from the spec: the loop of the assignment. At each multi-index the source
  element is read, cast to the element type of the destination and stored at the
  destination's position; an element with no representation stops the loop. The last
  argument counts the iterations made, and is returned with the result.
\<close>

fun assign_loop ::
  "ndarray \<Rightarrow> ndarray \<Rightarrow> nat list list \<Rightarrow> nat \<Rightarrow> (error option \<times> ndarray) \<times> nat" where
  "assign_loop src dst [] k = ((None, dst), k)"
| "assign_loop src dst (idx # rest) k =
     (case Option.bind (get src idx) (convert (dtype src) (dtype dst)) of
        None \<Rightarrow> ((Some UnsupportedCastKind, dst), Suc k)
      | Some c \<Rightarrow>
          assign_loop src (dst\<lparr>data := buf_set (data dst) (position dst idx) c\<rparr>) rest (Suc k))"

text \<open>
  Modelled from the spec: \<^verbatim>\<open>@stdlib/ndarray-base-assign\<close> is not part of the package.
  The shapes must be equal; an ndarray of no element is left as it is; otherwise the
  multi-indices are visited in the order of the destination. The result is the error
  raised, if any, and the destination after the call, with the number of iterations of
  the loop.
\<close>

definition assign_counted :: "ndarray \<Rightarrow> ndarray \<Rightarrow> (error option \<times> ndarray) \<times> nat" where
  "assign_counted src dst =
     (if shape src \<noteq> shape dst then ((Some ShapeMismatch, dst), 0)
      else if numel (shape dst) = 0 then ((None, dst), 0)
      else assign_loop src dst (traversal (order dst) (shape dst)) 0)"

definition assign :: "ndarray \<Rightarrow> ndarray \<Rightarrow> error option \<times> ndarray" where
  "assign src dst = fst (assign_counted src dst)"


subsection \<open>fill\<close>

definition template :: string where
  "template = ''invalid argument. The second argument cannot be safely cast to the input array data type. Data type: %s. Value: `%s`.''"

text \<open>
  \<^verbatim>\<open>fill( x, value )\<close> of \<^verbatim>\<open>lib/main.js\<close>. The result is what the call gives its
  caller, an error thrown or the value returned, and \<open>x\<close> after the call. The function
  has no \<^verbatim>\<open>return\<close> statement: a call that does not throw returns \<^verbatim>\<open>undefined\<close>.
\<close>

definition fill :: "ndarray \<Rightarrow> scalar \<Rightarrow> (error + jsvalue) \<times> ndarray" where
  "fill x value =
     (let dt = getDtype x in
      if \<not> isScalarMostlySafeCompatible value dt
      then (Inl (TypeError (format template [StrArg (dtype_str dt), ValArg value])), x)
      else
        (case broadcastScalar value dt (getShape x) (getOrder x) of
           Inl e \<Rightarrow> (Inl e, x)
         | Inr v \<Rightarrow>
             (case assign v x of
                (Some e, x') \<Rightarrow> (Inl e, x')
              | (None, x') \<Rightarrow> (Inr Undefined, x'))))"

subsection \<open>The work of a call\<close>


subsection \<open>Well-formed descriptors\<close>

definition valid_index :: "nat list \<Rightarrow> nat list \<Rightarrow> bool" where
  "valid_index sh idx = list_all2 (<) idx sh"

definition in_bounds :: "ndarray \<Rightarrow> nat list \<Rightarrow> bool" where
  "in_bounds x idx = inside (data x) (position x idx)"

text \<open>
  The invariant of a descriptor: one stride per dimension, and the position of every
  valid multi-index within the buffer.
\<close>

definition valid_descriptor :: "ndarray \<Rightarrow> bool" where
  "valid_descriptor x =
     (length (strides x) = length (shape x) \<and> list_all (in_bounds x) (indices_row (shape x)))"

text \<open>
  The ndarray of the example in the documentation of \<open>fill\<close>: a double-precision
  buffer of six elements, viewed with shape \<open>[3, 1, 2]\<close> and strides \<open>[2, 2, 1]\<close>.
\<close>

definition example :: ndarray where
  "example =
     \<lparr>dtype = RealT Float64,
      data = [RealElem (Fin 1), RealElem (Fin 2), RealElem (Fin 3), RealElem (Fin 4),
              RealElem (Fin 5), RealElem (Fin 6)],
      shape = [3, 1, 2], strides = [2, 2, 1], offset = 0, order = RowMajor\<rparr>"

section \<open>Properties\<close>

subsection \<open>The index space\<close>

lemma position_data [simp]: "position (x\<lparr>data := d\<rparr>) idx = position x idx"
  by (simp add: position_def)

lemma set_indices_row: "set (indices_row sh) = {idx. list_all2 (<) idx sh}"
proof (induction sh)
  case Nil
  show ?case by auto
next
  case (Cons n ns)
  show ?case
    by (auto simp: Cons.IH list_all2_Cons2)
qed

lemma set_indices_col: "set (indices_col sh) = {idx. list_all2 (<) idx sh}"
proof (induction sh)
  case Nil
  show ?case by auto
next
  case (Cons n ns)
  show ?case
    by (auto simp: Cons.IH list_all2_Cons2)
qed

lemma set_traversal: "set (traversal ord sh) = {idx. valid_index sh idx}"
  by (cases ord) (simp_all add: set_indices_row set_indices_col valid_index_def)

lemma length_in_traversal: "idx \<in> set (traversal ord sh) \<Longrightarrow> length idx = length sh"
  by (simp add: set_traversal valid_index_def list_all2_lengthD)

lemma length_concat_const:
  "(\<And>x. x \<in> set xs \<Longrightarrow> length (f x) = k) \<Longrightarrow> length (concat (map f xs)) = length xs * k"
  by (induction xs) auto

lemma length_indices_row: "length (indices_row sh) = numel sh"
  unfolding numel_def
  by (induction sh) (simp_all add: length_concat_const)

lemma length_indices_col: "length (indices_col sh) = numel sh"
  unfolding numel_def
  by (induction sh) (simp_all add: length_concat_const)

lemma length_traversal: "length (traversal ord sh) = numel sh"
  by (cases ord) (simp_all add: length_indices_row length_indices_col)

lemma numel_zero: "numel sh = 0 \<longleftrightarrow> 0 \<in> set sh"
  unfolding numel_def by (induction sh) auto

subsection \<open>Stores into a buffer\<close>

lemma inside_length: "length b' = length b \<Longrightarrow> inside b' p = inside b p"
  by (cases p) simp_all

lemma length_buf_set [simp]: "length (buf_set b q c) = length b"
  by (simp add: buf_set_def)

lemma buf_set_outside: "\<not> inside b q \<Longrightarrow> buf_set b q c = b"
  by (simp add: buf_set_def)

lemma buf_get_outside: "\<not> inside b p \<Longrightarrow> buf_get b p = None"
  by (simp add: buf_get_def)

lemma buf_get_inside: "inside b (Some i) \<Longrightarrow> buf_get b (Some i) = Some (b ! nat i)"
  by (simp add: buf_get_def)

lemma buf_set_inside: "inside b (Some j) \<Longrightarrow> buf_set b (Some j) c = b[nat j := c]"
  by (simp add: buf_set_def)

lemma buf_get_set:
  "buf_get (buf_set b q c) p = (if p = q \<and> inside b p then Some c else buf_get b p)"
proof (cases "inside b q")
  case False
  then have "\<not> (p = q \<and> inside b p)"
    by blast
  moreover have "buf_set b q c = b"
    using False by (rule buf_set_outside)
  ultimately show ?thesis
    by (simp only: if_False)
next
  case True
  then obtain j where q: "q = Some j" and j: "0 \<le> j" "j < int (length b)"
    by (cases q) auto
  show ?thesis
  proof (cases "inside b p")
    case False
    then have "\<not> inside (buf_set b q c) p"
      using inside_length [OF length_buf_set, of b q c p] by blast
    then have "buf_get (buf_set b q c) p = None"
      by (rule buf_get_outside)
    with False show ?thesis
      by (simp only: buf_get_outside simp_thms if_False)
  next
    case True
    then obtain i where p: "p = Some i" and i: "0 \<le> i" "i < int (length b)"
      by (cases p) auto
    have e: "nat i = nat j \<longleftrightarrow> i = j"
      using i j by linarith
    have "inside (b[nat j := c]) (Some i)"
      using i by simp
    then have "buf_get (b[nat j := c]) (Some i) = Some ((b[nat j := c]) ! nat i)"
      by (rule buf_get_inside)
    also have "(b[nat j := c]) ! nat i = (if i = j then c else b ! nat i)"
    proof (cases "i = j")
      case True
      have "nat j < length b"
        using j by linarith
      with True show ?thesis
        by simp
    next
      case False
      then have "nat j \<noteq> nat i"
        using e by simp
      with False show ?thesis
        by simp
    qed
    finally have "buf_get (b[nat j := c]) (Some i) = (if i = j then Some c else Some (b ! nat i))"
      by simp
    moreover have "buf_set b q c = b[nat j := c]"
      unfolding q using j by (simp add: buf_set_inside)
    moreover have "buf_get b (Some i) = Some (b ! nat i)"
      using i by (simp add: buf_get_inside)
    ultimately show ?thesis
      using True by (simp add: p q)
  qed
qed

lemma length_fold_set [simp]:
  "length (foldl (\<lambda>b i. buf_set b (f i) c) b idxs) = length b"
  by (induction idxs arbitrary: b) simp_all

lemma buf_get_fold_set:
  "buf_get (foldl (\<lambda>b i. buf_set b (f i) c) b idxs) p =
     (if p \<in> f ` set idxs \<and> inside b p then Some c else buf_get b p)"
proof (induction idxs arbitrary: b)
  case Nil
  show ?case by simp
next
  case (Cons i idxs)
  let ?b = "buf_set b (f i) c"
  have s: "inside ?b p = inside b p"
    by (rule inside_length) simp
  have "buf_get (foldl (\<lambda>b i. buf_set b (f i) c) b (i # idxs)) p =
      buf_get (foldl (\<lambda>b i. buf_set b (f i) c) ?b idxs) p"
    by simp
  also have "\<dots> = (if p \<in> f ` set idxs \<and> inside b p then Some c else buf_get ?b p)"
    by (simp only: Cons.IH s)
  also have "buf_get ?b p = (if p = f i \<and> inside b p then Some c else buf_get b p)"
    by (rule buf_get_set)
  finally show ?case
    by (cases "p = f i"; cases "p \<in> f ` set idxs"; cases "inside b p") simp_all
qed

subsection \<open>Assigning a broadcast scalar\<close>

lemma sum_zero_strides:
  "sum_list (map2 (\<lambda>i s. int i * s) idx (replicate n 0)) = 0"
proof (induction idx arbitrary: n)
  case Nil
  show ?case by simp
next
  case (Cons i idx)
  show ?case
    by (cases n) (simp_all add: Cons.IH)
qed

lemma get_broadcast:
  "data src = [c] \<Longrightarrow> offset src = 0 \<Longrightarrow> strides src = replicate n 0 \<Longrightarrow> length idx \<le> n \<Longrightarrow>
   get src idx = Some c"
  by (simp add: get_def position_def buf_get_def sum_zero_strides)

lemma assign_loop_broadcast:
  assumes "data src = [c]" "offset src = 0" "strides src = replicate n 0"
    and "dtype src = dtype dst" and "\<forall>idx \<in> set idxs. length idx \<le> n"
  shows "assign_loop src dst idxs k =
     ((None, dst\<lparr>data := foldl (\<lambda>b i. buf_set b (position dst i) c) (data dst) idxs\<rparr>),
      k + length idxs)"
  using assms(4,5)
proof (induction idxs arbitrary: dst k)
  case Nil
  show ?case by simp
next
  case (Cons idx rest)
  have g: "get src idx = Some c"
    using assms(1-3) Cons.prems(2) by (simp add: get_broadcast)
  show ?case
    using Cons.prems by (simp add: g convert_def Cons.IH)
qed




lemma compatible_cast:
  "isScalarMostlySafeCompatible v dt \<Longrightarrow> \<exists>c. cast_scalar dt v = Some c"
proof (cases v)
  case (NumberValue n)
  assume "isScalarMostlySafeCompatible v dt"
  with NumberValue show ?thesis
  proof (cases dt)
    case (RealT t)
    assume "isScalarMostlySafeCompatible v dt" "v = NumberValue n"
    with RealT show ?thesis
      by (cases t) auto
  next
    case (ComplexT t)
    then show ?thesis
      using NumberValue by (cases t) simp_all
  qed
next
  case (ComplexValue a b)
  assume "isScalarMostlySafeCompatible v dt"
  with ComplexValue show ?thesis
  proof (cases dt)
    case (RealT t)
    assume "isScalarMostlySafeCompatible v dt" "v = ComplexValue a b"
    with RealT show ?thesis by simp
  next
    case (ComplexT t)
    then show ?thesis
      using ComplexValue by (cases t) simp_all
  qed
next
  case NonNumeric
  assume "isScalarMostlySafeCompatible v dt"
  with NonNumeric show ?thesis by simp
qed

lemma fill_compatible:
  assumes "isScalarMostlySafeCompatible v (dtype x)" and "cast_scalar (dtype x) v = Some c"
  shows "fill x v =
     (Inr Undefined,
      x\<lparr>data := foldl (\<lambda>b i. buf_set b (position x i) c) (data x)
                  (traversal (order x) (shape x))\<rparr>)"
proof -
  let ?v = "\<lparr>dtype = dtype x, data = [c], shape = shape x,
             strides = replicate (length (shape x)) 0, offset = 0, order = order x\<rparr>"
  have b: "broadcastScalar v (dtype x) (shape x) (order x) = Inr ?v"
    by (simp add: broadcastScalar_def assms(2))
  have l: "\<forall>idx \<in> set (traversal (order x) (shape x)). length idx \<le> length (shape x)"
    by (simp add: length_in_traversal)
  have a: "assign ?v x =
     (None, x\<lparr>data := foldl (\<lambda>b i. buf_set b (position x i) c) (data x)
                  (traversal (order x) (shape x))\<rparr>)"
  proof (cases "numel (shape x) = 0")
    case True
    then have "traversal (order x) (shape x) = []"
      using length_traversal [of "order x" "shape x"] by simp
    with True show ?thesis by (simp add: assign_def assign_counted_def)
  next
    case False
    then show ?thesis
      using assign_loop_broadcast [of ?v c "length (shape x)" x _ 0, OF _ _ _ _ l]
      by (simp add: assign_def assign_counted_def)
  qed
  show ?thesis
    using assms(1) by (simp add: fill_def getDtype_def getShape_def getOrder_def b a)
qed

subsection \<open>The outcome of fill\<close>

lemma format_template:
  "format template [StrArg s, ValArg v] =
     map Chr ''invalid argument. The second argument cannot be safely cast to the input array data type. Data type: ''
     @ map Chr s @ map Chr ''. Value: `'' @ [Val v] @ map Chr ''`.''"
  by (simp add: template_def)

lemma fill_incompatible:
  "\<not> isScalarMostlySafeCompatible v (dtype x) \<Longrightarrow>
   fill x v = (Inl (TypeError (format template [StrArg (dtype_str (dtype x)), ValArg v])), x)"
  by (simp add: fill_def getDtype_def)

lemma valid_descriptor_in_bounds:
  "valid_descriptor x \<Longrightarrow> valid_index (shape x) idx \<Longrightarrow> in_bounds x idx"
  by (simp add: valid_descriptor_def list_all_iff set_indices_row valid_index_def)

lemma get_filled:
  assumes "valid_descriptor x" and "valid_index (shape x) idx"
  shows "get (x\<lparr>data := foldl (\<lambda>b i. buf_set b (position x i) c) (data x)
                  (traversal (order x) (shape x))\<rparr>) idx = Some c"
proof -
  have "idx \<in> set (traversal (order x) (shape x))"
    using assms(2) by (simp add: set_traversal)
  moreover have "inside (data x) (position x idx)"
    using valid_descriptor_in_bounds [OF assms] by (simp add: in_bounds_def)
  ultimately show ?thesis
    by (simp add: get_def buf_get_fold_set)
qed

lemma example_valid: "valid_descriptor example"
  by code_simp

lemma fill_example:
  "fill example (NumberValue (Fin 10)) =
     (Inr Undefined,
      example\<lparr>data := [RealElem (Fin 10), RealElem (Fin 10), RealElem (Fin 10),
                        RealElem (Fin 10), RealElem (Fin 10), RealElem (Fin 10)]\<rparr>)"
  by code_simp

lemma fill_compatible_data:
  assumes "isScalarMostlySafeCompatible v (dtype x)"
  shows "\<exists>d. fill x v = (Inr Undefined, x\<lparr>data := d\<rparr>) \<and> length d = length (data x)"
proof -
  from compatible_cast [OF assms] obtain c where "cast_scalar (dtype x) v = Some c"
    by blast
  with assms have "fill x v =
     (Inr Undefined,
      x\<lparr>data := foldl (\<lambda>b i. buf_set b (position x i) c) (data x)
                  (traversal (order x) (shape x))\<rparr>)"
    by (simp add: fill_compatible)
  moreover have "length (foldl (\<lambda>b i. buf_set b (position x i) c) (data x)
                  (traversal (order x) (shape x))) = length (data x)"
    by simp
  ultimately show ?thesis
    by blast
qed

lemma fill_zero_size:
  assumes "0 \<in> set (shape x)" and "isScalarMostlySafeCompatible v (dtype x)"
  shows "fill x v = (Inr Undefined, x)"
proof -
  from compatible_cast [OF assms(2)] obtain c where c: "cast_scalar (dtype x) v = Some c"
    by blast
  have "numel (shape x) = 0"
    using assms(1) by (simp add: numel_zero)
  then have "traversal (order x) (shape x) = []"
    using length_traversal [of "order x" "shape x"] by simp
  then show ?thesis
    using fill_compatible [OF assms(2) c] by simp
qed

lemma thrown_only_when_incompatible:
  assumes "fst (fill x v) = Inl e"
  shows "\<not> isScalarMostlySafeCompatible v (dtype x)"
proof
  assume "isScalarMostlySafeCompatible v (dtype x)"
  then obtain d where "fill x v = (Inr Undefined, x\<lparr>data := d\<rparr>)"
    using fill_compatible_data by blast
  with assms show False by simp
qed

section \<open>Claims\<close>

text \<open>
  C1. For a descriptor that satisfies its invariant and a value that is cast-compatible
  with its element type, \<open>fill\<close> returns, and reading the filled ndarray at every valid
  multi-index, at the offset plus the sum of index times stride, gives the value cast to
  the element type: the value itself where the type holds it, the nearest
  single-precision number in a single-precision type. For the ndarray of the
  documentation, \<open>fill\<close> with 10.0 leaves the buffer \<open>[10, 10, 10, 10, 10, 10]\<close>.
\<close>

theorem fill_reads_back:
  "(valid_descriptor x \<and> isScalarMostlySafeCompatible v (dtype x) \<longrightarrow>
      (\<exists>c. cast_scalar (dtype x) v = Some c \<and> fst (fill x v) = Inr Undefined \<and>
           (\<forall>idx. valid_index (shape x) idx \<longrightarrow> get (snd (fill x v)) idx = Some c)))
   \<and> fill example (NumberValue (Fin 10)) =
       (Inr Undefined,
        example\<lparr>data := [RealElem (Fin 10), RealElem (Fin 10), RealElem (Fin 10),
                          RealElem (Fin 10), RealElem (Fin 10), RealElem (Fin 10)]\<rparr>)"
proof (intro conjI impI)
  assume h: "valid_descriptor x \<and> isScalarMostlySafeCompatible v (dtype x)"
  then obtain c where c: "cast_scalar (dtype x) v = Some c"
    using compatible_cast by blast
  have f: "fill x v =
     (Inr Undefined,
      x\<lparr>data := foldl (\<lambda>b i. buf_set b (position x i) c) (data x)
                  (traversal (order x) (shape x))\<rparr>)"
    using h c by (simp add: fill_compatible)
  have "\<forall>idx. valid_index (shape x) idx \<longrightarrow> get (snd (fill x v)) idx = Some c"
    using h by (simp add: f get_filled)
  with c f
  show "\<exists>c. cast_scalar (dtype x) v = Some c \<and> fst (fill x v) = Inr Undefined \<and>
           (\<forall>idx. valid_index (shape x) idx \<longrightarrow> get (snd (fill x v)) idx = Some c)"
    by simp
next
  show "fill example (NumberValue (Fin 10)) =
       (Inr Undefined,
        example\<lparr>data := [RealElem (Fin 10), RealElem (Fin 10), RealElem (Fin 10),
                          RealElem (Fin 10), RealElem (Fin 10), RealElem (Fin 10)]\<rparr>)"
    by (rule fill_example)
qed

text \<open>
  The instance of C1 at a single-precision ndarray and the number 16777217, which single
  precision does not hold: every element reads back as 16777216.
\<close>

theorem fill_reads_back_witness:
  "valid_descriptor
     \<lparr>dtype = RealT Float32, data = [RealElem (Fin 1), RealElem (Fin 2), RealElem (Fin 3)],
      shape = [3], strides = [1], offset = 0, order = RowMajor\<rparr>
   \<and> isScalarMostlySafeCompatible (NumberValue (Fin 16777217)) (RealT Float32)
   \<and> valid_index [3] [2]
   \<and> cast_scalar (RealT Float32) (NumberValue (Fin 16777217)) = Some (RealElem (Fin 16777216))
   \<and> get (snd (fill
        \<lparr>dtype = RealT Float32, data = [RealElem (Fin 1), RealElem (Fin 2), RealElem (Fin 3)],
         shape = [3], strides = [1], offset = 0, order = RowMajor\<rparr>
        (NumberValue (Fin 16777217)))) [2] = Some (RealElem (Fin 16777216))"
proof -
  let ?x = "\<lparr>dtype = RealT Float32, data = [RealElem (Fin 1), RealElem (Fin 2), RealElem (Fin 3)],
      shape = [3], strides = [1], offset = 0, order = RowMajor\<rparr>"
  let ?v = "NumberValue (Fin 16777217)"
  have v: "valid_descriptor ?x"
    by code_simp
  have c: "isScalarMostlySafeCompatible ?v (dtype ?x)"
    by simp
  have i: "valid_index (shape ?x) [2]"
    by (simp add: valid_index_def)
  have k: "cast_scalar (dtype ?x) ?v = Some (RealElem (Fin 16777216))"
    by code_simp
  from fill_reads_back [of ?x ?v] v c
  obtain c' where c': "cast_scalar (dtype ?x) ?v = Some c'"
    and r: "\<forall>idx. valid_index (shape ?x) idx \<longrightarrow> get (snd (fill ?x ?v)) idx = Some c'"
    by blast
  from c' k have "c' = RealElem (Fin 16777216)"
    by simp
  with r i have "get (snd (fill ?x ?v)) [2] = Some (RealElem (Fin 16777216))"
    by blast
  with v c i k show ?thesis
    by (simp del: cast_scalar.simps cast.simps cast_real.simps)
qed

text \<open>
  C2. A value that is not cast-compatible with the element type of \<open>x\<close> makes \<open>fill\<close>
  throw an error whose message holds the name of the element type and the rejected value;
  nothing has been written, and \<open>x\<close> with its buffer is as it was.
\<close>

theorem fill_rejects_incompatible:
  "\<not> isScalarMostlySafeCompatible v (dtype x) \<Longrightarrow>
   \<exists>pre mid post. fill x v =
     (Inl (TypeError (map Chr pre @ map Chr (dtype_str (dtype x)) @ map Chr mid @ [Val v]
                      @ map Chr post)), x)"
  unfolding fill_incompatible format_template by blast

text \<open>The instance of C2 at the documented ndarray and a complex value.\<close>

theorem fill_rejects_incompatible_witness:
  "\<not> isScalarMostlySafeCompatible (ComplexValue (Fin 1) (Fin 2)) (dtype example)
   \<and> snd (fill example (ComplexValue (Fin 1) (Fin 2))) = example
   \<and> (\<exists>m. fst (fill example (ComplexValue (Fin 1) (Fin 2))) = Inl (TypeError m)
          \<and> Val (ComplexValue (Fin 1) (Fin 2)) \<in> set m)"
proof -
  have n: "\<not> isScalarMostlySafeCompatible (ComplexValue (Fin 1) (Fin 2)) (dtype example)"
    by (simp add: example_def)
  from fill_rejects_incompatible [OF n] obtain pre mid post where
    "fill example (ComplexValue (Fin 1) (Fin 2)) =
       (Inl (TypeError (map Chr pre @ map Chr (dtype_str (dtype example)) @ map Chr mid
                        @ [Val (ComplexValue (Fin 1) (Fin 2))] @ map Chr post)), example)"
    by blast
  with n show ?thesis by simp
qed

text \<open>
  C3, as the claim states it: after \<open>fill\<close> with a real number \<open>r\<close> every element of
  an ndarray of a complex type has exactly \<open>r\<close> as its real component. The components of
  the type \<^verbatim>\<open>complex64\<close> are single-precision numbers: filled with 16777217, an element
  has 16777216 as its real component.
\<close>

theorem fill_complex_from_real_counterexample:
  "valid_descriptor
     \<lparr>dtype = ComplexT Complex64,
      data = [ComplexElem (Fin 1) (Fin 2), ComplexElem (Fin 3) (Fin 4)],
      shape = [2], strides = [1], offset = 0, order = RowMajor\<rparr>
   \<and> isScalarMostlySafeCompatible (NumberValue (Fin 16777217)) (ComplexT Complex64)
   \<and> valid_index [2] [1]
   \<and> get (snd (fill
        \<lparr>dtype = ComplexT Complex64,
         data = [ComplexElem (Fin 1) (Fin 2), ComplexElem (Fin 3) (Fin 4)],
         shape = [2], strides = [1], offset = 0, order = RowMajor\<rparr>
        (NumberValue (Fin 16777217)))) [1] = Some (ComplexElem (Fin 16777216) (Fin 0))
   \<and> ComplexElem (Fin 16777216) (Fin 0) \<noteq> ComplexElem (Fin 16777217) (Fin 0)"
  by code_simp

text \<open>
  C3, amended: for a descriptor of a complex element type and a real number, every
  element of the filled ndarray is the complex number whose real component is the number
  in the precision of the components of the type, the number itself for
  \<^verbatim>\<open>complex128\<close> and the nearest single-precision number for \<^verbatim>\<open>complex64\<close>, and
  whose imaginary component is zero. Every number is cast-compatible with a complex type.
\<close>

theorem fill_complex_from_real:
  assumes "valid_descriptor x" and "dtype x = ComplexT t"
    and "isScalarMostlySafeCompatible (NumberValue n) (dtype x)"
    and "valid_index (shape x) idx"
  shows "fst (fill x (NumberValue n)) = Inr Undefined
    \<and> get (snd (fill x (NumberValue n))) idx =
        Some (ComplexElem (case t of Complex128 \<Rightarrow> n | Complex64 \<Rightarrow> fround n) (Fin 0))"
proof -
  have "cast_scalar (dtype x) (NumberValue n) =
      Some (ComplexElem (case t of Complex128 \<Rightarrow> n | Complex64 \<Rightarrow> fround n) (Fin 0))"
    by (cases t) (simp_all add: assms(2))
  then have "fill x (NumberValue n) =
     (Inr Undefined,
      x\<lparr>data := foldl (\<lambda>b i. buf_set b (position x i)
                    (ComplexElem (case t of Complex128 \<Rightarrow> n | Complex64 \<Rightarrow> fround n) (Fin 0)))
                  (data x) (traversal (order x) (shape x))\<rparr>)"
    using assms(3) by (rule fill_compatible [rotated])
  then show ?thesis
    using assms(1,4) by (simp add: get_filled)
qed

text \<open>The instance of the amended C3 at a column-major ndarray of four double-precision complex numbers.\<close>

theorem fill_complex_from_real_witness:
  "valid_descriptor
     \<lparr>dtype = ComplexT Complex128,
      data = [ComplexElem (Fin 1) (Fin 2), ComplexElem (Fin 3) (Fin 4),
              ComplexElem (Fin 5) (Fin 6), ComplexElem (Fin 7) (Fin 8)],
      shape = [2, 2], strides = [1, 2], offset = 0, order = ColumnMajor\<rparr>
   \<and> isScalarMostlySafeCompatible (NumberValue (Fin 5)) (ComplexT Complex128)
   \<and> valid_index [2, 2] [1, 0]
   \<and> get (snd (fill
        \<lparr>dtype = ComplexT Complex128,
         data = [ComplexElem (Fin 1) (Fin 2), ComplexElem (Fin 3) (Fin 4),
                 ComplexElem (Fin 5) (Fin 6), ComplexElem (Fin 7) (Fin 8)],
         shape = [2, 2], strides = [1, 2], offset = 0, order = ColumnMajor\<rparr>
        (NumberValue (Fin 5)))) [1, 0] = Some (ComplexElem (Fin 5) (Fin 0))"
proof -
  let ?x = "\<lparr>dtype = ComplexT Complex128,
      data = [ComplexElem (Fin 1) (Fin 2), ComplexElem (Fin 3) (Fin 4),
              ComplexElem (Fin 5) (Fin 6), ComplexElem (Fin 7) (Fin 8)],
      shape = [2, 2], strides = [1, 2], offset = 0, order = ColumnMajor\<rparr>"
  have v: "valid_descriptor ?x"
    by code_simp
  have c: "isScalarMostlySafeCompatible (NumberValue (Fin 5)) (dtype ?x)"
    by simp
  have i: "valid_index (shape ?x) [1, 0]"
    by (simp add: valid_index_def)
  have "get (snd (fill ?x (NumberValue (Fin 5)))) [1, 0] = Some (ComplexElem (Fin 5) (Fin 0))"
    using fill_complex_from_real [OF v _ c i] by simp
  with v c i show ?thesis by simp
qed

text \<open>
  C4, as the claim states it: \<open>fill\<close> returns the ndarray it was given. The function has
  no \<^verbatim>\<open>return\<close> statement and is documented to return nothing: at the documented
  example the call returns \<^verbatim>\<open>undefined\<close>, which is not the filled ndarray.
\<close>

theorem fill_returns_input_counterexample:
  "isScalarMostlySafeCompatible (NumberValue (Fin 10)) (dtype example)
   \<and> fst (fill example (NumberValue (Fin 10))) = Inr Undefined
   \<and> fst (fill example (NumberValue (Fin 10)))
       \<noteq> Inr (Object (snd (fill example (NumberValue (Fin 10)))))"
  by (simp add: fill_example) (simp add: example_def)

text \<open>
  C4, amended: for a cast-compatible value \<open>fill\<close> mutates \<open>x\<close> in place, changing
  nothing but its data buffer, and returns \<^verbatim>\<open>undefined\<close>.
\<close>

theorem fill_returns_undefined:
  "isScalarMostlySafeCompatible v (dtype x) \<Longrightarrow>
   fst (fill x v) = Inr Undefined \<and> (\<exists>d. snd (fill x v) = x\<lparr>data := d\<rparr>)"
  using fill_compatible_data [of v x] by auto

text \<open>The instance of the amended C4 at the documented ndarray and the number 7.\<close>

theorem fill_returns_undefined_witness:
  "isScalarMostlySafeCompatible (NumberValue (Fin 7)) (dtype example)
   \<and> fst (fill example (NumberValue (Fin 7))) = Inr Undefined
   \<and> (\<exists>d. snd (fill example (NumberValue (Fin 7))) = example\<lparr>data := d\<rparr>)"
proof -
  have c: "isScalarMostlySafeCompatible (NumberValue (Fin 7)) (dtype example)"
    by (simp add: example_def)
  with fill_returns_undefined [OF c] show ?thesis by simp
qed

text \<open>
  C5, as the claim states it: on a descriptor with a dimension of size zero \<open>fill\<close>
  succeeds whatever the value. The cast check comes first in \<open>fill\<close>, before the shape is
  looked at: on a shape \<open>[2, 0]\<close> of 32-bit integers the number 3.5 is rejected with
  the error.
\<close>

theorem fill_empty_counterexample:
  "0 \<in> set (shape \<lparr>dtype = RealT Int32, data = [RealElem (Fin 1), RealElem (Fin 2)],
                    shape = [2, 0], strides = [1, 1], offset = 0, order = RowMajor\<rparr>)
   \<and> fst (fill \<lparr>dtype = RealT Int32, data = [RealElem (Fin 1), RealElem (Fin 2)],
                 shape = [2, 0], strides = [1, 1], offset = 0, order = RowMajor\<rparr>
                (NumberValue (Fin 3.5)))
       = Inl (TypeError (format template [StrArg ''int32'', ValArg (NumberValue (Fin 3.5))]))"
  by (simp add: fill_def getDtype_def)

text \<open>
  C5, amended: on a descriptor with a dimension of size zero \<open>fill\<close> leaves \<open>x\<close> as it
  is; it returns when the value is cast-compatible with the element type, and throws the
  error of the cast check when it is not.
\<close>

theorem fill_empty:
  "0 \<in> set (shape x) \<Longrightarrow>
   snd (fill x v) = x \<and>
   (if isScalarMostlySafeCompatible v (dtype x)
    then fst (fill x v) = Inr Undefined
    else fst (fill x v) =
           Inl (TypeError (format template [StrArg (dtype_str (dtype x)), ValArg v])))"
  by (simp add: fill_zero_size fill_incompatible)

text \<open>The instance of the amended C5 at a shape \<open>[2, 0]\<close> of 32-bit integers and the number 3.\<close>

theorem fill_empty_witness:
  "0 \<in> set (shape \<lparr>dtype = RealT Int32, data = [RealElem (Fin 1), RealElem (Fin 2)],
                    shape = [2, 0], strides = [1, 1], offset = 0, order = RowMajor\<rparr>)
   \<and> isScalarMostlySafeCompatible (NumberValue (Fin 3)) (RealT Int32)
   \<and> fill \<lparr>dtype = RealT Int32, data = [RealElem (Fin 1), RealElem (Fin 2)],
            shape = [2, 0], strides = [1, 1], offset = 0, order = RowMajor\<rparr>
          (NumberValue (Fin 3))
       = (Inr Undefined,
          \<lparr>dtype = RealT Int32, data = [RealElem (Fin 1), RealElem (Fin 2)],
           shape = [2, 0], strides = [1, 1], offset = 0, order = RowMajor\<rparr>)"
proof -
  let ?x = "\<lparr>dtype = RealT Int32, data = [RealElem (Fin 1), RealElem (Fin 2)],
             shape = [2, 0], strides = [1, 1], offset = 0, order = RowMajor\<rparr>"
  have z: "0 \<in> set (shape ?x)"
    by simp
  have c: "isScalarMostlySafeCompatible (NumberValue (Fin 3)) (dtype ?x)"
    by (simp add: lowest_def highest_def)
  from fill_empty [OF z, of "NumberValue (Fin 3)"] c
  have "snd (fill ?x (NumberValue (Fin 3))) = ?x
      \<and> fst (fill ?x (NumberValue (Fin 3))) = Inr Undefined"
    by (simp del: isScalarMostlySafeCompatible.simps)
  then have "fill ?x (NumberValue (Fin 3)) = (Inr Undefined, ?x)"
    by (simp add: prod_eq_iff)
  with z c show ?thesis
    by (simp del: isScalarMostlySafeCompatible.simps)
qed

text \<open>
  C6. For a cast-compatible value \<open>fill\<close> leaves the data type, the shape, the strides,
  the offset and the order of \<open>x\<close> as they were; only the contents of the data buffer
  change, not its length.
\<close>

theorem fill_keeps_metadata:
  "isScalarMostlySafeCompatible v (dtype x) \<Longrightarrow>
   dtype (snd (fill x v)) = dtype x \<and> shape (snd (fill x v)) = shape x \<and>
   strides (snd (fill x v)) = strides x \<and> offset (snd (fill x v)) = offset x \<and>
   order (snd (fill x v)) = order x \<and> length (data (snd (fill x v))) = length (data x)"
  using fill_compatible_data [of v x] by auto

text \<open>The instance of C6 at the documented ndarray and the number 4.\<close>

theorem fill_keeps_metadata_witness:
  "isScalarMostlySafeCompatible (NumberValue (Fin 4)) (dtype example)
   \<and> dtype (snd (fill example (NumberValue (Fin 4)))) = RealT Float64
   \<and> shape (snd (fill example (NumberValue (Fin 4)))) = [3, 1, 2]
   \<and> strides (snd (fill example (NumberValue (Fin 4)))) = [2, 2, 1]
   \<and> offset (snd (fill example (NumberValue (Fin 4)))) = 0
   \<and> order (snd (fill example (NumberValue (Fin 4)))) = RowMajor
   \<and> length (data (snd (fill example (NumberValue (Fin 4))))) = 6"
proof -
  have c: "isScalarMostlySafeCompatible (NumberValue (Fin 4)) (dtype example)"
    by (simp add: example_def)
  from fill_keeps_metadata [OF c] c show ?thesis
    by (simp add: example_def)
qed




text \<open>
  C8. Two descriptors of the same shape and element type, over buffers of their own and
  with strides, offset and order of their own, read back the same element at every
  multi-index after \<open>fill\<close> with the same cast-compatible value: the cast value, each
  read through the descriptor's own strides and offset.
\<close>

theorem fill_layout_independent:
  assumes "valid_descriptor x1" and "valid_descriptor x2"
    and "shape x1 = shape x2" and "dtype x1 = dtype x2"
    and "isScalarMostlySafeCompatible v (dtype x1)"
    and "valid_index (shape x1) idx"
  shows "get (snd (fill x1 v)) idx = get (snd (fill x2 v)) idx
    \<and> get (snd (fill x1 v)) idx = cast_scalar (dtype x1) v"
proof -
  from compatible_cast [OF assms(5)] obtain c where c: "cast_scalar (dtype x1) v = Some c"
    by blast
  have "get (snd (fill x1 v)) idx = Some c"
    using fill_compatible [OF assms(5) c] assms(1,6) by (simp add: get_filled)
  moreover have "get (snd (fill x2 v)) idx = Some c"
    using fill_compatible [of v x2 c] assms(2-6) c by (simp add: get_filled)
  ultimately show ?thesis
    using c by simp
qed

text \<open>
  The instance of C8 at the documented ndarray and a column-major view with a negative
  stride and offset 3 over a buffer of eight elements.
\<close>

theorem fill_layout_independent_witness:
  "valid_descriptor example
   \<and> valid_descriptor
       \<lparr>dtype = RealT Float64,
        data = [RealElem (Fin 0), RealElem (Fin 0), RealElem (Fin 0), RealElem (Fin 0),
                RealElem (Fin 0), RealElem (Fin 0), RealElem (Fin 0), RealElem (Fin 0)],
        shape = [3, 1, 2], strides = [- 1, 3, 3], offset = 3, order = ColumnMajor\<rparr>
   \<and> isScalarMostlySafeCompatible (NumberValue (Fin 10)) (dtype example)
   \<and> valid_index (shape example) [2, 0, 1]
   \<and> get (snd (fill example (NumberValue (Fin 10)))) [2, 0, 1]
       = get (snd (fill
           \<lparr>dtype = RealT Float64,
            data = [RealElem (Fin 0), RealElem (Fin 0), RealElem (Fin 0), RealElem (Fin 0),
                    RealElem (Fin 0), RealElem (Fin 0), RealElem (Fin 0), RealElem (Fin 0)],
            shape = [3, 1, 2], strides = [- 1, 3, 3], offset = 3, order = ColumnMajor\<rparr>
           (NumberValue (Fin 10)))) [2, 0, 1]"
proof -
  let ?y = "\<lparr>dtype = RealT Float64,
        data = [RealElem (Fin 0), RealElem (Fin 0), RealElem (Fin 0), RealElem (Fin 0),
                RealElem (Fin 0), RealElem (Fin 0), RealElem (Fin 0), RealElem (Fin 0)],
        shape = [3, 1, 2], strides = [- 1, 3, 3], offset = 3, order = ColumnMajor\<rparr>"
  have v: "valid_descriptor ?y"
    by code_simp
  have s: "shape example = shape ?y" "dtype example = dtype ?y"
    by (simp_all add: example_def)
  have c: "isScalarMostlySafeCompatible (NumberValue (Fin 10)) (dtype example)"
    by (simp add: example_def)
  have i: "valid_index (shape example) [2, 0, 1]"
    by (simp add: example_def valid_index_def)
  from fill_layout_independent [OF example_valid v s c i]
  have "get (snd (fill example (NumberValue (Fin 10)))) [2, 0, 1]
       = get (snd (fill ?y (NumberValue (Fin 10)))) [2, 0, 1]"
    by simp
  with example_valid v c i show ?thesis by simp
qed



text \<open>
  C10. The error thrown on a rejected value is a \<open>TypeError\<close> whose message is the fixed
  template with the name of the data type and the value in the place of its two
  \<^verbatim>\<open>%s\<close>; and every error that \<open>fill\<close> throws is that one, thrown on a rejected
  value.
\<close>

theorem fill_throws_type_error:
  "(\<not> isScalarMostlySafeCompatible v (dtype x) \<longrightarrow>
      fst (fill x v) =
        Inl (TypeError
          (map Chr ''invalid argument. The second argument cannot be safely cast to the input array data type. Data type: ''
           @ map Chr (dtype_str (dtype x)) @ map Chr ''. Value: `'' @ [Val v] @ map Chr ''`.'')))
   \<and> (\<forall>e. fst (fill x v) = Inl e \<longrightarrow>
          \<not> isScalarMostlySafeCompatible v (dtype x) \<and>
          e = TypeError (format template [StrArg (dtype_str (dtype x)), ValArg v]))"
proof (intro conjI impI allI)
  assume "\<not> isScalarMostlySafeCompatible v (dtype x)"
  then have "fst (fill x v) =
      Inl (TypeError (format template [StrArg (dtype_str (dtype x)), ValArg v]))"
    by (simp add: fill_incompatible)
  then show "fst (fill x v) =
        Inl (TypeError
          (map Chr ''invalid argument. The second argument cannot be safely cast to the input array data type. Data type: ''
           @ map Chr (dtype_str (dtype x)) @ map Chr ''. Value: `'' @ [Val v] @ map Chr ''`.''))"
    by (simp only: format_template)
next
  fix e assume e: "fst (fill x v) = Inl e"
  then show n: "\<not> isScalarMostlySafeCompatible v (dtype x)"
    by (rule thrown_only_when_incompatible)
  with e show "e = TypeError (format template [StrArg (dtype_str (dtype x)), ValArg v])"
    by (simp add: fill_incompatible)
qed

text \<open>The instance of C10 at the documented ndarray and a value that is not a number.\<close>

theorem fill_throws_type_error_witness:
  "\<not> isScalarMostlySafeCompatible NonNumeric (dtype example)
   \<and> fst (fill example NonNumeric) =
        Inl (TypeError
          (map Chr ''invalid argument. The second argument cannot be safely cast to the input array data type. Data type: float64. Value: `''
           @ [Val NonNumeric] @ map Chr ''`.''))"
proof -
  have n: "\<not> isScalarMostlySafeCompatible NonNumeric (dtype example)"
    by simp
  have d: "dtype_str (dtype example) = ''float64''"
    by (simp add: example_def)
  from fill_throws_type_error [of NonNumeric example] n
  have "fst (fill example NonNumeric) =
        Inl (TypeError
          (map Chr ''invalid argument. The second argument cannot be safely cast to the input array data type. Data type: ''
           @ map Chr (dtype_str (dtype example)) @ map Chr ''. Value: `'' @ [Val NonNumeric] @ map Chr ''`.''))"
    by blast
  with n show ?thesis
    by (simp add: d)
qed

end
